theory Spec2Isabelle
  imports Main "HOL-Library.AList"
begin

section \<open>pybeepop: the PyBeePop wrapper class of \<^verbatim>\<open>src/pybeepop/pybeepop.py\<close>\<close>

text \<open>
  The class \<^verbatim>\<open>PyBeePop\<close> is a thin wrapper around an object of class
  \<^verbatim>\<open>BeePopModel\<close> (module \<^verbatim>\<open>tools\<close>), which drives the native BeePop+ library.
  Each method is embedded as a function that takes the object \<open>self\<close> and returns what the
  call raises or returns, the object as the call leaves it (an exception does not undo the
  assignments made before it), and the effects of the call in order.
\<close>

subsection \<open>Values, exceptions, effects\<close>

text \<open>
  Python values that cross the interface. Numeric scalars are represented by \<open>PyInt\<close>;
  the wrapper never inspects them.
\<close>

datatype py_value =
    PyNone
  | PyBool bool
  | PyInt int
  | PyStr string
  | PyList "py_value list"
  | PyDict "(py_value \<times> py_value) list"

text \<open>
  The exception classes the module raises itself, \<open>AttributeError\<close> (raised by Python when
  an attribute that is not there is read or deleted; it carries the attribute's name), and the
  classes the collaborators may raise.
\<close>

datatype py_error =
    NotImplementedError string
  | FileNotFoundError string
  | TypeError string
  | RuntimeError string
  | IndexError string
  | AttributeError string
  | ValueError string
  | OtherError string

text \<open>A pandas DataFrame: its columns in order, each a label and the column's values.\<close>

type_synonym dataframe = "(string \<times> py_value list) list"

definition columns :: "dataframe \<Rightarrow> string list" where
  "columns df = map fst df"

text \<open>
  \<^verbatim>\<open>df.to_dict(orient="list")\<close>: a dict from each label to the list of the column's values.
  A dict keeps the position of a key's first insertion and the value of its last.
\<close>

definition to_dict_list :: "dataframe \<Rightarrow> (string \<times> py_value list) list" where
  "to_dict_list df = fold (\<lambda>(k, v) d. AList.update k v d) df []"

text \<open>Calls into \<^verbatim>\<open>BeePopModel\<close>, the only way to the native library.\<close>

datatype native_call =
    NewModel string bool
  | SetParameters py_value
  | GetParameters
  | LoadWeather string
  | LoadInputFile string
  | LoadContamFile string
  | RunBeePop
  | GetErrors
  | GetInfo
  | GetVersion
  | CloseLibrary

text \<open>
  The effects of a call, in order: a probe of the file system by \<^verbatim>\<open>os.path.isfile\<close>,
  a line printed, a call into \<^verbatim>\<open>BeePopModel\<close>, a call of \<^verbatim>\<open>plot_timeseries\<close>.
\<close>

datatype event =
    IsFile string
  | Print string
  | Native native_call
  | PlotTimeseries dataframe "string list"

subsection \<open>What the module imports\<close>

text \<open>
  The operating system and the standard library, as the module uses them:
  \<^verbatim>\<open>platform.system()\<close>, \<^verbatim>\<open>platform.architecture()[0]\<close>,
  \<^verbatim>\<open>os.path.dirname(os.path.abspath(__file__))\<close>, \<^verbatim>\<open>os.path.join\<close>,
  \<^verbatim>\<open>os.path.isfile\<close>, \<^verbatim>\<open>repr\<close> of a string (used when a list of strings is
  formatted) and \<^verbatim>\<open>json.dumps\<close>.
\<close>

record env =
  platform_system :: string
  platform_architecture :: string
  module_dir :: string
  path_join :: "string \<Rightarrow> string \<Rightarrow> string"
  isfile :: "string \<Rightarrow> bool"
  str_repr :: "string \<Rightarrow> string"
  json_dumps :: "(string \<times> py_value list) list \<Rightarrow> py_error + string"

text \<open>
  The class \<^verbatim>\<open>BeePopModel\<close> of module \<^verbatim>\<open>tools\<close> is not part of the file
  verified here, so it is a parameter: \<open>'n\<close> is the state of a \<^verbatim>\<open>BeePopModel\<close> object,
  \<open>new_model\<close> its constructor, and each \<open>bp_\<close> field the method of that name (the prefix
  keeps them apart from the wrapper's methods). A method may raise, and may change the object
  whether it raises or not.
\<close>

record 'n BeePopModel =
  new_model :: "string \<Rightarrow> bool \<Rightarrow> py_error + 'n"
  bp_set_parameters :: "'n \<Rightarrow> py_value \<Rightarrow> (py_error + py_value) \<times> 'n"
  bp_get_parameters :: "'n \<Rightarrow> (py_error + py_value) \<times> 'n"
  bp_load_weather :: "'n \<Rightarrow> string \<Rightarrow> (py_error + unit) \<times> 'n"
  bp_load_input_file :: "'n \<Rightarrow> string \<Rightarrow> (py_error + unit) \<times> 'n"
  bp_load_contam_file :: "'n \<Rightarrow> string \<Rightarrow> (py_error + unit) \<times> 'n"
  bp_run_beepop :: "'n \<Rightarrow> (py_error + dataframe) \<times> 'n"
  bp_get_errors :: "'n \<Rightarrow> (py_error + string) \<times> 'n"
  bp_get_info :: "'n \<Rightarrow> (py_error + string) \<times> 'n"
  bp_get_version :: "'n \<Rightarrow> (py_error + string) \<times> 'n"
  bp_close_library :: "'n \<Rightarrow> (py_error + unit) \<times> 'n"

subsection \<open>The object\<close>

text \<open>
  An attribute of a Python object is there or not: \<open>__init__\<close> creates the attributes one
  by one, and \<open>exit\<close> deletes \<open>beepop\<close>. Reading an attribute that is not there raises
  \<open>AttributeError\<close>.
\<close>

datatype 'a attr = Unset | Attr 'a

record 'n PyBeePop =
  parent :: "string attr"
  platform :: "string attr"
  verbose :: "bool attr"
  lib_file :: "string attr"
  beepop :: "'n attr"
  parameters :: "py_value attr"
  parameter_file :: "string option attr"
  weather_file :: "string option attr"
  residue_file :: "string option attr"
  output' :: "dataframe option attr"

definition new_object :: "'n PyBeePop" where
  "new_object =
     \<lparr>parent = Unset, platform = Unset, verbose = Unset, lib_file = Unset, beepop = Unset,
      parameters = Unset, parameter_file = Unset, weather_file = Unset, residue_file = Unset,
      output' = Unset\<rparr>"

text \<open>
  The result of a method call: what it raises (\<open>Inl\<close>) or returns (\<open>Inr\<close>), the object
  afterwards, and the effects of the call.
\<close>

type_synonym ('n, 'r) result = "(py_error + 'r) \<times> 'n PyBeePop \<times> event list"

text \<open>Statements in sequence: the second runs only if the first did not raise.\<close>

definition seq ::
  "('n, 'a) result \<Rightarrow> ('a \<Rightarrow> 'n PyBeePop \<Rightarrow> ('n, 'b) result) \<Rightarrow> ('n, 'b) result" where
  "seq m f =
     (case m of
        (Inl e, self, ev) \<Rightarrow> (Inl e, self, ev)
      | (Inr a, self, ev) \<Rightarrow> (case f a self of (r, self', ev') \<Rightarrow> (r, self', ev @ ev')))"

text \<open>
  A call \<^verbatim>\<open>self.beepop.m(...)\<close>: reading \<open>self.beepop\<close> raises \<open>AttributeError\<close> when the
  attribute has been deleted; otherwise the method runs on the \<^verbatim>\<open>BeePopModel\<close> object.
\<close>

definition call_beepop ::
  "native_call \<Rightarrow> ('n \<Rightarrow> (py_error + 'r) \<times> 'n) \<Rightarrow> 'n PyBeePop \<Rightarrow> ('n, 'r) result" where
  "call_beepop c m self =
     (case beepop self of
        Unset \<Rightarrow> (Inl (AttributeError ''beepop''), self, [])
      | Attr n \<Rightarrow> (case m n of (r, n') \<Rightarrow> (r, self\<lparr>beepop := Attr n'\<rparr>, [Native c])))"

subsection \<open>The methods that configure the model\<close>

definition set_parameters :: "'n BeePopModel \<Rightarrow> 'n PyBeePop \<Rightarrow> py_value \<Rightarrow> ('n, unit) result" where
  "set_parameters lib self ps =
     (if ps \<noteq> PyNone \<and> \<not> (case ps of PyDict _ \<Rightarrow> True | _ \<Rightarrow> False)
      then (Inl (TypeError ''parameters must be a named dictionary of BeePop+ parameters''), self, [])
      else seq (call_beepop (SetParameters ps) (\<lambda>n. bp_set_parameters lib n ps) self)
             (\<lambda>r self. (Inr (), self\<lparr>parameters := Attr r\<rparr>, [])))"

definition get_parameters :: "'n BeePopModel \<Rightarrow> 'n PyBeePop \<Rightarrow> ('n, py_value) result" where
  "get_parameters lib self = call_beepop GetParameters (bp_get_parameters lib) self"

definition load_weather ::
  "'n BeePopModel \<Rightarrow> env \<Rightarrow> 'n PyBeePop \<Rightarrow> string \<Rightarrow> ('n, unit) result" where
  "load_weather lib env self path =
     (if \<not> isfile env path
      then (Inl (FileNotFoundError (''Weather file does not exist at path: '' @ path @ ''!'')),
            self, [IsFile path])
      else seq (Inr (), self\<lparr>weather_file := Attr (Some path)\<rparr>, [IsFile path])
             (\<lambda>_ self. call_beepop (LoadWeather path) (\<lambda>n. bp_load_weather lib n path) self))"

definition load_parameter_file ::
  "'n BeePopModel \<Rightarrow> env \<Rightarrow> 'n PyBeePop \<Rightarrow> string \<Rightarrow> ('n, unit) result" where
  "load_parameter_file lib env self path =
     (if \<not> isfile env path
      then (Inl (FileNotFoundError (''Paramter file does not exist at path: '' @ path @ ''!'')),
            self, [IsFile path])
      else seq (Inr (), self\<lparr>parameter_file := Attr (Some path)\<rparr>, [IsFile path])
             (\<lambda>_ self. call_beepop (LoadInputFile path) (\<lambda>n. bp_load_input_file lib n path) self))"

definition load_residue_file ::
  "'n BeePopModel \<Rightarrow> env \<Rightarrow> 'n PyBeePop \<Rightarrow> string \<Rightarrow> ('n, unit) result" where
  "load_residue_file lib env self path =
     (if \<not> isfile env path
      then (Inl (FileNotFoundError (''Residue file does not exist at path: '' @ path @ ''!'')),
            self, [IsFile path])
      else seq (Inr (), self\<lparr>residue_file := Attr (Some path)\<rparr>, [IsFile path])
             (\<lambda>_ self. call_beepop (LoadContamFile path) (\<lambda>n. bp_load_contam_file lib n path) self))"

subsection \<open>Running the model and reading its output\<close>

text \<open>Reading an attribute of \<open>self\<close>.\<close>

definition read_attr :: "string \<Rightarrow> 'a attr \<Rightarrow> 'n PyBeePop \<Rightarrow> ('n, 'a) result" where
  "read_attr name a self =
     (case a of
        Unset \<Rightarrow> (Inl (AttributeError name), self, [])
      | Attr v \<Rightarrow> (Inr v, self, []))"

text \<open>
  \<open>run_model\<close>: the test for parameters comes first and only prints; \<open>and\<close> reads
  \<open>self.parameters\<close> only when \<open>self.parameter_file\<close> is \<open>None\<close>.
\<close>

definition run_model :: "'n BeePopModel \<Rightarrow> 'n PyBeePop \<Rightarrow> ('n, dataframe) result" where
  "run_model lib self =
     seq (read_attr ''parameter_file'' (parameter_file self) self) (\<lambda>pf self.
     seq (if pf = None
          then seq (read_attr ''parameters'' (parameters self) self)
                 (\<lambda>ps self. (Inr (ps = PyNone), self, []))
          else (Inr False, self, [])) (\<lambda>no_parameters self.
     seq (Inr (), self,
          if no_parameters
          then [Print ''No parameters have been set. Running with defualt settings.'']
          else []) (\<lambda>_ self.
     seq (read_attr ''weather_file'' (weather_file self) self) (\<lambda>w self.
     if w = None
     then (Inl (RuntimeError ''Weather must be set before running BeePop+!''), self, [])
     else seq (call_beepop RunBeePop (bp_run_beepop lib) self)
            (\<lambda>df self. (Inr df, self\<lparr>output' := Attr (Some df)\<rparr>, []))))))"

text \<open>What \<open>get_output\<close> returns: the DataFrame itself or a JSON string.\<close>

datatype output_value = Table dataframe | JsonText string

definition get_output :: "env \<Rightarrow> 'n PyBeePop \<Rightarrow> string \<Rightarrow> ('n, output_value) result" where
  "get_output env self format =
     seq (read_attr ''output'' (output' self) self) (\<lambda>out self.
     case out of
       None \<Rightarrow>
         (Inl (RuntimeError ''There are no results to plot. Please run the model first.''),
          self, [])
     | Some df \<Rightarrow>
         if format = ''json''
         then (case json_dumps env (to_dict_list df) of
                 Inl e \<Rightarrow> (Inl e, self, [])
               | Inr text \<Rightarrow> (Inr (JsonText text), self, []))
         else (Inr (Table df), self, []))"

text \<open>
  \<^verbatim>\<open>"...{}...".format(xs)\<close> for a list \<open>xs\<close> of strings inserts \<^verbatim>\<open>repr(xs)\<close>: the
  \<^verbatim>\<open>repr\<close> of each element, separated by a comma and a space, in square brackets.
\<close>

fun join_comma :: "string list \<Rightarrow> string" where
  "join_comma [] = []"
| "join_comma [x] = x"
| "join_comma (x # y # ys) = x @ '', '' @ join_comma (y # ys)"

definition list_repr :: "env \<Rightarrow> string list \<Rightarrow> string" where
  "list_repr env xs = ''['' @ join_comma (map (str_repr env) xs) @ '']''"

text \<open>
  \<open>plot_output\<close>; \<^verbatim>\<open>plot_timeseries\<close> of module \<^verbatim>\<open>plots\<close> is a parameter, \<open>'p\<close> the
  type of the Axes object it returns.
\<close>

definition plot_output ::
  "env \<Rightarrow> (dataframe \<Rightarrow> string list \<Rightarrow> py_error + 'p) \<Rightarrow> 'n PyBeePop \<Rightarrow> string list \<Rightarrow>
   ('n, 'p) result" where
  "plot_output env plot_timeseries self cols =
     seq (read_attr ''output'' (output' self) self) (\<lambda>out self.
     case out of
       None \<Rightarrow>
         (Inl (RuntimeError ''There are no results to plot. Please run the model first.''),
          self, [])
     | Some df \<Rightarrow>
         let invalid_cols = map (\<lambda>col. col \<notin> set (columns df)) cols in
         if list_ex (\<lambda>v. v) invalid_cols
         then (Inl (IndexError
                 (''The column name '' @
                  list_repr env (map fst (filter (\<lambda>(i, v). v) (zip cols invalid_cols))) @
                  '' is not a valid output column.'')),
               self, [])
         else (plot_timeseries df cols, self, [PlotTimeseries df cols]))"

definition default_columns :: "string list" where
  "default_columns =
     [''Colony Size'', ''Adult Workers'', ''Capped Worker Brood'', ''Worker Larvae'',
      ''Worker Eggs'']"

definition get_error_log :: "'n BeePopModel \<Rightarrow> 'n PyBeePop \<Rightarrow> ('n, string) result" where
  "get_error_log lib self = call_beepop GetErrors (bp_get_errors lib) self"

definition get_info_log :: "'n BeePopModel \<Rightarrow> 'n PyBeePop \<Rightarrow> ('n, string) result" where
  "get_info_log lib self = call_beepop GetInfo (bp_get_info lib) self"

definition version :: "'n BeePopModel \<Rightarrow> 'n PyBeePop \<Rightarrow> ('n, string) result" where
  "version lib self = call_beepop GetVersion (bp_get_version lib) self"

text \<open>\<open>exit\<close>: close the library, then \<^verbatim>\<open>del self.beepop\<close>.\<close>

definition exit :: "'n BeePopModel \<Rightarrow> 'n PyBeePop \<Rightarrow> ('n, unit) result" where
  "exit lib self =
     seq (call_beepop CloseLibrary (bp_close_library lib) self) (\<lambda>_ self.
     case beepop self of
       Unset \<Rightarrow> (Inl (AttributeError ''beepop''), self, [])
     | Attr _ \<Rightarrow> (Inr (), self\<lparr>beepop := Unset\<rparr>, []))"

subsection \<open>The constructor\<close>

definition linux_notice :: string where
  "linux_notice =
      [CHR 0x0A] @
      ''                        Running in Linux mode. Trying manylinux/musllinux version.'' @ [CHR 0x0A] @
      ''                        If you encounter errors, you may need to compile your own version of BeePop+ from source and pass the path to your'' @ [CHR 0x0A] @
      ''                        .so file with the lib_file option. Currently, only 64-bit architecture is supported.'' @ [CHR 0x0A] @
      ''                        See the pybeepop README for instructions.'' @ [CHR 0x0A] @
      ''                        ''"

definition library_missing :: string where
  "library_missing =
      [CHR 0x0A] @
      ''                BeePop+ shared object library does not exist or is not compatible with your operating system. '' @ [CHR 0x0A] @
      ''                You may need to compile BeePop+ from source (see https://github.com/USEPA/pybeepop/blob/main/README.md for more info.)'' @ [CHR 0x0A] @
      ''                Currently, only 64-bit architecture is supported.'' @ [CHR 0x0A] @
      ''                ''"

text \<open>
  The first block of \<open>__init__\<close> (\<^verbatim>\<open>if lib_file is None: ...\<close>): the library file to
  open. \<open>self.platform\<close>, \<open>self.parent\<close> and \<open>self.verbose\<close> have just been assigned from
  \<^verbatim>\<open>platform.system()\<close>, the module's directory and the argument \<open>verbose\<close>.
  \<^verbatim>\<open>platform.architecture()\<close> is asked only on Windows.
\<close>

definition init_lib_file :: "env \<Rightarrow> string option \<Rightarrow> bool \<Rightarrow> (py_error + string) \<times> event list" where
  "init_lib_file env lib_file_arg verbose_arg =
     (case lib_file_arg of
        Some path \<Rightarrow> (Inr path, [])
      | None \<Rightarrow>
          if platform_system env = ''Windows''
          then (if platform_architecture env = ''32bit''
                then (Inl (NotImplementedError
                        ''Windows x86 (32-bit) is not supported by BeePop+. Please run on an x64 platform.''),
                      [])
                else (Inr (path_join env (module_dir env) ''lib/beepop_win64.dll''), []))
          else if platform_system env = ''Linux''
          then (Inr (path_join env (module_dir env) ''lib/beepop_linux.so''),
                if verbose_arg then [Print linux_notice] else [])
          else (Inl (NotImplementedError ''BeePop+ only supports Windows and Linux.''), []))"

text \<open>
  The three blocks of \<open>__init__\<close> that load the files given to the constructor. The first
  and the third pass \<open>self.parameter_file\<close> and \<open>self.residue_file\<close>, attributes of the
  object, to the load method; the second passes the argument \<open>weather_file\<close>.
  \<^verbatim>\<open>os.path.isfile(None)\<close> raises \<open>TypeError\<close>.
\<close>

definition isfile_None :: py_error where
  "isfile_None =
     TypeError ''stat: path should be string, bytes, os.PathLike or integer, not NoneType''"

definition init_parameter_file ::
  "'n BeePopModel \<Rightarrow> env \<Rightarrow> 'n PyBeePop \<Rightarrow> string option \<Rightarrow> ('n, unit) result" where
  "init_parameter_file lib env self parameter_file_arg =
     (if parameter_file_arg \<noteq> None
      then seq (read_attr ''parameter_file'' (parameter_file self) self) (\<lambda>p self.
           case p of
             None \<Rightarrow> (Inl isfile_None, self, [])
           | Some path \<Rightarrow> load_parameter_file lib env self path)
      else (Inr (), self\<lparr>parameter_file := Attr None\<rparr>, []))"

definition init_weather_file ::
  "'n BeePopModel \<Rightarrow> env \<Rightarrow> 'n PyBeePop \<Rightarrow> string option \<Rightarrow> ('n, unit) result" where
  "init_weather_file lib env self weather_file_arg =
     (case weather_file_arg of
        Some path \<Rightarrow> load_weather lib env self path
      | None \<Rightarrow> (Inr (), self\<lparr>weather_file := Attr None\<rparr>, []))"

definition init_residue_file ::
  "'n BeePopModel \<Rightarrow> env \<Rightarrow> 'n PyBeePop \<Rightarrow> string option \<Rightarrow> ('n, unit) result" where
  "init_residue_file lib env self residue_file_arg =
     (if residue_file_arg \<noteq> None
      then seq (read_attr ''residue_file'' (residue_file self) self) (\<lambda>p self.
           case p of
             None \<Rightarrow> (Inl isfile_None, self, [])
           | Some path \<Rightarrow> load_residue_file lib env self path)
      else (Inr (), self\<lparr>residue_file := Attr None\<rparr>, []))"

text \<open>
  The rest of \<open>__init__\<close>, from the test that the library file exists to the end, on
  the object \<open>self\<close> with \<open>parent\<close>, \<open>platform\<close> and \<open>verbose\<close> assigned and with the
  library file \<open>path\<close>.
\<close>

definition init_open ::
  "'n BeePopModel \<Rightarrow> env \<Rightarrow> 'n PyBeePop \<Rightarrow> string \<Rightarrow> string option \<Rightarrow> string option \<Rightarrow>
   string option \<Rightarrow> bool \<Rightarrow> ('n, unit) result" where
  "init_open lib env self path parameter_file_arg weather_file_arg residue_file_arg verbose_arg =
     (if \<not> isfile env path
      then (Inl (FileNotFoundError library_missing), self, [IsFile path])
      else (case new_model lib path verbose_arg of
              Inl e \<Rightarrow> (Inl e, self\<lparr>lib_file := Attr path\<rparr>,
                        [IsFile path, Native (NewModel path verbose_arg)])
            | Inr n \<Rightarrow>
                seq (Inr (), self\<lparr>lib_file := Attr path, beepop := Attr n,
                                  parameters := Attr PyNone\<rparr>,
                     [IsFile path, Native (NewModel path verbose_arg)]) (\<lambda>_ self.
                seq (init_parameter_file lib env self parameter_file_arg) (\<lambda>_ self.
                seq (init_weather_file lib env self weather_file_arg) (\<lambda>_ self.
                seq (init_residue_file lib env self residue_file_arg) (\<lambda>_ self.
                (Inr (), self\<lparr>output' := Attr None\<rparr>, [])))))))"

text \<open>
  \<open>__init__\<close>, with its arguments \<open>lib_file\<close>, \<open>parameter_file\<close>, \<open>weather_file\<close>,
  \<open>residue_file\<close> (\<open>None\<close> or a path each) and \<open>verbose\<close>. When it raises there is no
  object: the result is the exception and the effects up to it.
\<close>

definition init ::
  "'n BeePopModel \<Rightarrow> env \<Rightarrow> string option \<Rightarrow> string option \<Rightarrow> string option \<Rightarrow> string option \<Rightarrow>
   bool \<Rightarrow> (py_error + 'n PyBeePop) \<times> event list" where
  "init lib env lib_file_arg parameter_file_arg weather_file_arg residue_file_arg verbose_arg =
     (let self = new_object\<lparr>parent := Attr (module_dir env),
                            platform := Attr (platform_system env),
                            verbose := Attr verbose_arg\<rparr>
      in case init_lib_file env lib_file_arg verbose_arg of
           (Inl e, ev0) \<Rightarrow> (Inl e, ev0)
         | (Inr path, ev0) \<Rightarrow>
             (case init_open lib env self path parameter_file_arg weather_file_arg
                     residue_file_arg verbose_arg
              of (Inl e, self, ev) \<Rightarrow> (Inl e, ev0 @ ev)
               | (Inr _, self, ev) \<Rightarrow> (Inr self, ev0 @ ev)))"

subsection \<open>Any method call\<close>

text \<open>
  The public methods with their arguments, and the call of any of them; used to speak about
  every method at once.
\<close>

datatype method_call =
    Set_parameters py_value
  | Get_parameters
  | Load_weather string
  | Load_parameter_file string
  | Load_residue_file string
  | Run_model
  | Get_output string
  | Plot_output "string list"
  | Get_error_log
  | Get_info_log
  | Version
  | Exit

datatype 'p returned =
    RetNone
  | RetValue py_value
  | RetTable dataframe
  | RetOutput output_value
  | RetText string
  | RetPlot 'p

definition returning :: "('a \<Rightarrow> 'b) \<Rightarrow> ('n, 'a) result \<Rightarrow> ('n, 'b) result" where
  "returning f m = (case m of (r, self, ev) \<Rightarrow> (map_sum (\<lambda>e. e) f r, self, ev))"

fun call_method ::
  "'n BeePopModel \<Rightarrow> env \<Rightarrow> (dataframe \<Rightarrow> string list \<Rightarrow> py_error + 'p) \<Rightarrow> 'n PyBeePop \<Rightarrow>
   method_call \<Rightarrow> ('n, 'p returned) result" where
  "call_method lib env plt self (Set_parameters ps) =
     returning (\<lambda>_. RetNone) (set_parameters lib self ps)"
| "call_method lib env plt self Get_parameters = returning RetValue (get_parameters lib self)"
| "call_method lib env plt self (Load_weather path) =
     returning (\<lambda>_. RetNone) (load_weather lib env self path)"
| "call_method lib env plt self (Load_parameter_file path) =
     returning (\<lambda>_. RetNone) (load_parameter_file lib env self path)"
| "call_method lib env plt self (Load_residue_file path) =
     returning (\<lambda>_. RetNone) (load_residue_file lib env self path)"
| "call_method lib env plt self Run_model = returning RetTable (run_model lib self)"
| "call_method lib env plt self (Get_output format) =
     returning RetOutput (get_output env self format)"
| "call_method lib env plt self (Plot_output cols) =
     returning RetPlot (plot_output env plt self cols)"
| "call_method lib env plt self Get_error_log = returning RetText (get_error_log lib self)"
| "call_method lib env plt self Get_info_log = returning RetText (get_info_log lib self)"
| "call_method lib env plt self Version = returning RetText (version lib self)"
| "call_method lib env plt self Exit = returning (\<lambda>_. RetNone) (exit lib self)"

subsection \<open>JSON text\<close>

text \<open>
  \<^verbatim>\<open>json.dumps\<close> and \<^verbatim>\<open>json.loads\<close> of the Python standard library, as its
  documentation describes them, on the values of type \<open>py_value\<close>. An integer is written
  in decimal (the interpreter's limit on the number of digits is left out).
\<close>

function digits :: "nat \<Rightarrow> string" where
  "digits n =
     (if n < 10 then [''0123456789'' ! n] else digits (n div 10) @ [''0123456789'' ! (n mod 10)])"
  by pat_completeness auto
termination
  by (relation "measure (\<lambda>n. n)") auto

declare digits.simps [simp del]

definition json_int :: "int \<Rightarrow> string" where
  "json_int i = (if i < 0 then ''-'' else []) @ digits (nat \<bar>i\<bar>)"

text \<open>
  \<^verbatim>\<open>json.dumps\<close> with its default arguments, on the values above. A string is written in
  double quotes; a quote and a backslash are escaped with a backslash, the five control
  characters that have a short escape get it, and every other character that is not between
  space and tilde is written as \<^verbatim>\<open>\u00XX\<close> with its code in lower-case hexadecimal. A
  character of a HOL string stands for the code point below 256 with its code.
\<close>

definition hex_digit :: "nat \<Rightarrow> char" where
  "hex_digit d = ''0123456789abcdef'' ! d"

definition json_char :: "char \<Rightarrow> string" where
  "json_char c =
     (if c = CHR 0x22 then [CHR 0x5C, CHR 0x22]
      else if c = CHR 0x5C then [CHR 0x5C, CHR 0x5C]
      else if c = CHR 0x08 then [CHR 0x5C, CHR ''b'']
      else if c = CHR 0x0C then [CHR 0x5C, CHR ''f'']
      else if c = CHR 0x0A then [CHR 0x5C, CHR ''n'']
      else if c = CHR 0x0D then [CHR 0x5C, CHR ''r'']
      else if c = CHR 0x09 then [CHR 0x5C, CHR ''t'']
      else if (of_char c :: nat) < 0x20 \<or> 0x7E < (of_char c :: nat)
      then [CHR 0x5C, CHR ''u'', CHR ''0'', CHR ''0'',
            hex_digit (of_char c div 16), hex_digit (of_char c mod 16)]
      else [c])"

definition json_string :: "string \<Rightarrow> string" where
  "json_string s = [CHR 0x22] @ concat (map json_char s) @ [CHR 0x22]"

text \<open>
  The key of a dict must be a string, an integer, a boolean or \<open>None\<close>; all but a string
  are turned into one (\<open>1\<close> into \<^verbatim>\<open>"1"\<close>, \<open>True\<close> into \<^verbatim>\<open>"true"\<close>). Any other key
  makes \<^verbatim>\<open>json.dumps\<close> raise \<open>TypeError\<close>.
\<close>

fun json_key :: "py_value \<Rightarrow> string option" where
  "json_key (PyStr s) = Some s"
| "json_key (PyInt i) = Some (json_int i)"
| "json_key (PyBool b) = Some (if b then ''true'' else ''false'')"
| "json_key PyNone = Some ''null''"
| "json_key _ = None"

fun json_serializable :: "py_value \<Rightarrow> bool" where
  "json_serializable (PyList vs) = list_all json_serializable vs"
| "json_serializable (PyDict kvs) =
     list_all (\<lambda>(k, v). json_key k \<noteq> None \<and> json_serializable v) kvs"
| "json_serializable _ = True"

text \<open>
  The text of a value; items are separated by a comma and a space, a key from its value by
  a colon and a space. (\<open>json_text\<close> is used on serializable values only.)
\<close>

fun json_text :: "py_value \<Rightarrow> string" where
  "json_text PyNone = ''null''"
| "json_text (PyBool b) = (if b then ''true'' else ''false'')"
| "json_text (PyInt i) = json_int i"
| "json_text (PyStr s) = json_string s"
| "json_text (PyList vs) = ''['' @ join_comma (map json_text vs) @ '']''"
| "json_text (PyDict kvs) =
     ''{'' @
     join_comma (map (\<lambda>(k, v). json_string (the (json_key k)) @ '': '' @ json_text v) kvs) @
     ''}''"

definition py_json_dumps :: "py_value \<Rightarrow> py_error + string" where
  "py_json_dumps v =
     (if json_serializable v then Inr (json_text v)
      else Inl (TypeError ''keys must be str, int, float, bool or None''))"

text \<open>
  The dict that \<^verbatim>\<open>to_dict(orient="list")\<close> returns, as a value, and \<^verbatim>\<open>json.dumps\<close> of it.
\<close>

definition dict_value :: "(string \<times> py_value list) list \<Rightarrow> py_value" where
  "dict_value d = PyDict (map (\<lambda>(k, vs). (PyStr k, PyList vs)) d)"

definition dumps_dict :: "(string \<times> py_value list) list \<Rightarrow> py_error + string" where
  "dumps_dict d = py_json_dumps (dict_value d)"

text \<open>
  \<^verbatim>\<open>json.loads\<close> of a string. White space is a space, a tab, a line feed or a carriage
  return, and may stand around every value, comma, colon and bracket. The result \<open>None\<close>
  stands for \<open>JSONDecodeError\<close> and for a text whose value is outside the values above:
  a number with a fraction or an exponent, \<^verbatim>\<open>NaN\<close> and \<^verbatim>\<open>Infinity\<close> (floats), and a
  \<^verbatim>\<open>\uXXXX\<close> escape of a code point from 256 on.
\<close>

definition is_ws :: "char \<Rightarrow> bool" where
  "is_ws c = (c = CHR '' '' \<or> c = CHR 0x09 \<or> c = CHR 0x0A \<or> c = CHR 0x0D)"

definition skip_ws :: "string \<Rightarrow> string" where
  "skip_ws s = dropWhile is_ws s"

definition is_digit :: "char \<Rightarrow> bool" where
  "is_digit c = ((48::nat) \<le> of_char c \<and> of_char c \<le> (57::nat))"















definition number_end :: "string \<Rightarrow> bool" where
  "number_end rest =
     (case rest of
        [] \<Rightarrow> True
      | c # _ \<Rightarrow> \<not> is_digit c \<and> c \<noteq> CHR ''.'' \<and> c \<noteq> CHR ''e'' \<and> c \<noteq> CHR ''E'')"




subsection \<open>A concrete setting\<close>

text \<open>
  A small instance of everything the module imports, to run the methods on concrete inputs:
  a \<^verbatim>\<open>BeePopModel\<close> whose state is the weather file it has loaded and whose run fails
  without one or with the file \<^verbatim>\<open>empty.csv\<close>, and a 64-bit Linux machine with the bundled
  library and four input files. \<open>repr\<close> of a string without quotes, backslashes or control
  characters puts it in single quotes; \<^verbatim>\<open>json.dumps\<close> is the one given above.
\<close>

definition example_table :: dataframe where
  "example_table =
     [(''Date'', [PyStr ''06/01/2020'', PyStr ''06/02/2020'']),
      (''Colony Size'', [PyInt 10000, PyInt 10120]),
      (''Adult Workers'', [PyInt 8000, PyInt 8090]),
      (''Capped Worker Brood'', [PyInt 1000, PyInt 1010]),
      (''Worker Larvae'', [PyInt 600, PyInt 610]),
      (''Worker Eggs'', [PyInt 400, PyInt 410])]"

definition example_lib :: "string option BeePopModel" where
  "example_lib =
     \<lparr>new_model = (\<lambda>path v. Inr None),
      bp_set_parameters = (\<lambda>n ps. (Inr ps, n)),
      bp_get_parameters = (\<lambda>n. (Inr PyNone, n)),
      bp_load_weather = (\<lambda>n path. (Inr (), Some path)),
      bp_load_input_file = (\<lambda>n path. (Inr (), n)),
      bp_load_contam_file = (\<lambda>n path. (Inr (), n)),
      bp_run_beepop =
        (\<lambda>n. (if n = None \<or> n = Some ''empty.csv''
              then Inl (RuntimeError ''Error running BeePop+ simulation.'')
              else Inr example_table, n)),
      bp_get_errors = (\<lambda>n. (Inr [], n)),
      bp_get_info = (\<lambda>n. (Inr [], n)),
      bp_get_version = (\<lambda>n. (Inr ''0.1.0'', n)),
      bp_close_library = (\<lambda>n. (Inr (), n))\<rparr>"

definition example_env :: env where
  "example_env =
     \<lparr>platform_system = ''Linux'',
      platform_architecture = ''64bit'',
      module_dir = ''/opt/pybeepop'',
      path_join = (\<lambda>a b. a @ ''/'' @ b),
      isfile = (\<lambda>path. path \<in> set [''/opt/pybeepop/lib/beepop_linux.so'', ''weather.csv'',
                                     ''empty.csv'', ''parameters.txt'', ''residues.csv'']),
      str_repr = (\<lambda>s. [CHR 0x27] @ s @ [CHR 0x27]),
      json_dumps = dumps_dict\<rparr>"

text \<open>
  A 64-bit Windows machine with the bundled library; \<^verbatim>\<open>os.path.join\<close> puts a
  backslash between its arguments there.
\<close>

definition example_windows_dir :: string where
  "example_windows_dir = ''C:'' @ [CHR 0x5C] @ ''pybeepop''"

definition example_dll :: string where
  "example_dll = example_windows_dir @ [CHR 0x5C] @ ''lib/beepop_win64.dll''"

definition example_windows :: env where
  "example_windows =
     example_env\<lparr>platform_system := ''Windows'',
                 module_dir := example_windows_dir,
                 path_join := (\<lambda>a b. a @ [CHR 0x5C] @ b),
                 isfile := (\<lambda>path. path = example_dll)\<rparr>"

definition example_plot :: "dataframe \<Rightarrow> string list \<Rightarrow> py_error + string list" where
  "example_plot df cols = Inr cols"

text \<open>
  The object as \<^verbatim>\<open>PyBeePop()\<close> leaves it, as \<^verbatim>\<open>load_weather("weather.csv")\<close> leaves
  that one, as \<^verbatim>\<open>run_model()\<close> leaves that one in turn, and then as either
  \<^verbatim>\<open>load_weather("empty.csv")\<close> or \<^verbatim>\<open>exit()\<close> leaves the last.
\<close>

definition handle_created :: "string option PyBeePop" where
  "handle_created =
     \<lparr>parent = Attr ''/opt/pybeepop'', platform = Attr ''Linux'', verbose = Attr False,
      lib_file = Attr ''/opt/pybeepop/lib/beepop_linux.so'', beepop = Attr None,
      parameters = Attr PyNone, parameter_file = Attr None, weather_file = Attr None,
      residue_file = Attr None, output' = Attr None\<rparr>"

definition handle_configured :: "string option PyBeePop" where
  "handle_configured =
     handle_created\<lparr>beepop := Attr (Some ''weather.csv''),
                    weather_file := Attr (Some ''weather.csv'')\<rparr>"

definition handle_ran :: "string option PyBeePop" where
  "handle_ran = handle_configured\<lparr>output' := Attr (Some example_table)\<rparr>"

definition handle_reconfigured :: "string option PyBeePop" where
  "handle_reconfigured =
     handle_ran\<lparr>beepop := Attr (Some ''empty.csv''), weather_file := Attr (Some ''empty.csv'')\<rparr>"







section \<open>Properties\<close>

subsection \<open>Sequencing and attribute reads\<close>

lemma seq_Inl [simp]: "seq (Inl e, self, ev) f = (Inl e, self, ev)"
  by (simp add: seq_def)

lemma seq_Inr [simp]:
  "seq (Inr a, self, ev) f = (case f a self of (r, self', ev') \<Rightarrow> (r, self', ev @ ev'))"
  by (simp add: seq_def)

lemma read_attr_simps [simp]:
  "read_attr name Unset self = (Inl (AttributeError name), self, [])"
  "read_attr name (Attr v) self = (Inr v, self, [])"
  by (simp_all add: read_attr_def)

lemma returning_simps [simp]:
  "fst (returning f m) = map_sum (\<lambda>e. e) f (fst m)"
  "fst (snd (returning f m)) = fst (snd m)"
  "snd (snd (returning f m)) = snd (snd m)"
  by (simp_all add: returning_def split: prod.splits)

lemma isl_map_sum_iff [simp]: "isl (map_sum f g x) = isl x"
  by (cases x) simp_all


subsection \<open>JSON text read back\<close>
















lemma json_string_tl:
  "json_string s @ rest = CHR 0x22 # concat (map json_char s) @ CHR 0x22 # rest"
  by (simp add: json_string_def)



lemma skip_ws_start [simp]: "\<not> is_ws c \<Longrightarrow> skip_ws (c # s) = c # s"
  by (simp add: skip_ws_def)

lemma skip_ws_space [simp]: "skip_ws (CHR '' '' # s) = skip_ws s"
  by (simp add: skip_ws_def is_ws_def)


lemma is_ws_simps [simp]:
  "\<not> is_ws (CHR '','')" "\<not> is_ws (CHR '']'')" "\<not> is_ws (CHR ''}'')" "\<not> is_ws (CHR '':'')"
  "\<not> is_ws (CHR 0x22)"
  by (simp_all add: is_ws_def)

lemma number_end_simps [simp]:
  "number_end []" "number_end (CHR '','' # s)" "number_end (CHR '']'' # s)"
  "number_end (CHR ''}'' # s)"
  by (simp_all add: number_end_def is_digit_def)




lemma join_comma_Cons:
  "join_comma (x # y # ys) = x @ CHR '','' # CHR '' '' # join_comma (y # ys)"
  by simp















subsection \<open>The concrete setting\<close>

lemma init_created:
  "init example_lib example_env None None None None False =
     (Inr handle_created,
      [IsFile ''/opt/pybeepop/lib/beepop_linux.so'',
       Native (NewModel ''/opt/pybeepop/lib/beepop_linux.so'' False)])"
  by (simp add: init_def init_open_def init_lib_file_def init_parameter_file_def
      init_weather_file_def init_residue_file_def example_env_def example_lib_def new_object_def
      handle_created_def)

lemma load_weather_created:
  "load_weather example_lib example_env handle_created ''weather.csv'' =
     (Inr (), handle_configured, [IsFile ''weather.csv'', Native (LoadWeather ''weather.csv'')])"
  by (simp add: load_weather_def seq_def call_beepop_def example_env_def example_lib_def
      handle_created_def handle_configured_def)

lemma run_model_configured:
  "run_model example_lib handle_configured =
     (Inr example_table, handle_ran,
      [Print ''No parameters have been set. Running with defualt settings.'', Native RunBeePop])"
  by (simp add: run_model_def seq_def read_attr_def call_beepop_def example_lib_def
      handle_created_def handle_configured_def handle_ran_def)

lemma load_weather_ran:
  "load_weather example_lib example_env handle_ran ''empty.csv'' =
     (Inr (), handle_reconfigured, [IsFile ''empty.csv'', Native (LoadWeather ''empty.csv'')])"
  by (simp add: load_weather_def seq_def call_beepop_def example_env_def example_lib_def
      handle_created_def handle_configured_def handle_ran_def handle_reconfigured_def)

lemma run_model_reconfigured:
  "run_model example_lib handle_reconfigured =
     (Inl (RuntimeError ''Error running BeePop+ simulation.''), handle_reconfigured,
      [Print ''No parameters have been set. Running with defualt settings.'', Native RunBeePop])"
  by (simp add: run_model_def call_beepop_def example_lib_def
      handle_created_def handle_configured_def handle_ran_def handle_reconfigured_def)


lemma json_dumps_example:
  "json_dumps example_env (to_dict_list example_table) =
     Inr ''{\"Date\": [\"06/01/2020\", \"06/02/2020\"], \"Colony Size\": [10000, 10120], \"Adult Workers\": [8000, 8090], \"Capped Worker Brood\": [1000, 1010], \"Worker Larvae\": [600, 610], \"Worker Eggs\": [400, 410]}''"
  by (simp add: example_env_def dumps_dict_def py_json_dumps_def dict_value_def to_dict_list_def
      example_table_def json_int_def digits.simps json_string_def json_char_def)



lemma init_explicit_linux:
  "init example_lib example_env (Some ''/opt/pybeepop/lib/beepop_linux.so'') None None None True =
     (Inr (handle_created\<lparr>verbose := Attr True\<rparr>),
      [IsFile ''/opt/pybeepop/lib/beepop_linux.so'',
       Native (NewModel ''/opt/pybeepop/lib/beepop_linux.so'' True)])"
  by (simp add: init_def init_open_def init_lib_file_def init_parameter_file_def
      init_weather_file_def init_residue_file_def new_object_def example_env_def example_lib_def
      handle_created_def)

lemma init_explicit_windows:
  "init example_lib example_windows (Some example_dll) None None None False =
     (Inr (handle_created\<lparr>parent := Attr example_windows_dir, platform := Attr ''Windows'',
                          lib_file := Attr example_dll\<rparr>),
      [IsFile example_dll, Native (NewModel example_dll False)])"
  by (simp add: init_def init_open_def init_lib_file_def init_parameter_file_def
      init_weather_file_def init_residue_file_def new_object_def example_windows_def
      example_env_def example_lib_def handle_created_def)

subsection \<open>Loading files\<close>

text \<open>
  C5. Each of \<open>load_weather\<close>, \<open>load_parameter_file\<close> and \<open>load_residue_file\<close>, called
  with a path that \<^verbatim>\<open>os.path.isfile\<close> does not find, raises \<open>FileNotFoundError\<close>; its
  only effect is that probe of the file system, so there is no call into the native library,
  and the object, with its stored file paths and its \<^verbatim>\<open>BeePopModel\<close>, is as it was.
\<close>

theorem load_missing_file:
  assumes "\<not> isfile env path"
  shows "load_weather lib env self path =
           (Inl (FileNotFoundError (''Weather file does not exist at path: '' @ path @ ''!'')),
            self, [IsFile path])
       \<and> load_parameter_file lib env self path =
           (Inl (FileNotFoundError (''Paramter file does not exist at path: '' @ path @ ''!'')),
            self, [IsFile path])
       \<and> load_residue_file lib env self path =
           (Inl (FileNotFoundError (''Residue file does not exist at path: '' @ path @ ''!'')),
            self, [IsFile path])"
  using assms by (simp add: load_weather_def load_parameter_file_def load_residue_file_def)

theorem load_missing_file_witness:
  "\<not> isfile example_env ''missing.csv''
   \<and> load_weather example_lib example_env handle_ran ''missing.csv'' =
       (Inl (FileNotFoundError ''Weather file does not exist at path: missing.csv!''),
        handle_ran, [IsFile ''missing.csv''])
   \<and> load_parameter_file example_lib example_env handle_ran ''missing.csv'' =
       (Inl (FileNotFoundError ''Paramter file does not exist at path: missing.csv!''),
        handle_ran, [IsFile ''missing.csv''])
   \<and> load_residue_file example_lib example_env handle_ran ''missing.csv'' =
       (Inl (FileNotFoundError ''Residue file does not exist at path: missing.csv!''),
        handle_ran, [IsFile ''missing.csv''])"
proof -
  have missing: "\<not> isfile example_env ''missing.csv''"
    by (simp add: example_env_def)
  show ?thesis
    using missing load_missing_file [OF missing, of example_lib handle_ran] by simp
qed

subsection \<open>Running the model\<close>

text \<open>
  Where \<open>weather_file\<close> comes from: an object constructed without a weather file has
  \<open>weather_file = None\<close>, and no method call changes the attribute except a
  \<open>load_weather\<close> whose file exists. Such a call stores the path whatever becomes of the
  call into the native library that follows.
\<close>

lemma call_beepop_weather_file [simp]:
  "weather_file (fst (snd (call_beepop c m self))) = weather_file self"
  by (simp add: call_beepop_def split: attr.splits prod.splits)

lemma run_model_weather_file:
  "weather_file (fst (snd (run_model lib self))) = weather_file self"
  by (cases "parameter_file self"; cases "parameters self"; cases "weather_file self";
      cases "beepop self")
    (auto simp: run_model_def call_beepop_def seq_def split: prod.splits sum.splits)

lemma weather_file_kept:
  assumes "\<And>path. m = Load_weather path \<Longrightarrow> \<not> isfile env path"
  shows "weather_file (fst (snd (call_method lib env plt self m))) = weather_file self"
proof (cases m)
  case (Set_parameters ps)
  then show ?thesis
    by (cases "beepop self")
      (auto simp: set_parameters_def call_beepop_def seq_def split: prod.splits sum.splits)
next
  case Get_parameters
  then show ?thesis by (simp add: get_parameters_def)
next
  case (Load_weather path)
  with assms show ?thesis by (simp add: load_weather_def)
next
  case (Load_parameter_file path)
  then show ?thesis
    by (cases "beepop self")
      (auto simp: load_parameter_file_def call_beepop_def split: prod.splits)
next
  case (Load_residue_file path)
  then show ?thesis
    by (cases "beepop self")
      (auto simp: load_residue_file_def call_beepop_def split: prod.splits)
next
  case Run_model
  then show ?thesis by (simp add: run_model_weather_file)
next
  case (Get_output format)
  then show ?thesis
    by (cases "output' self") (simp_all add: get_output_def split: option.splits sum.splits)
next
  case (Plot_output cols)
  then show ?thesis
    by (cases "output' self") (simp_all add: plot_output_def Let_def split: option.splits)
next
  case Get_error_log
  then show ?thesis by (simp add: get_error_log_def)
next
  case Get_info_log
  then show ?thesis by (simp add: get_info_log_def)
next
  case Version
  then show ?thesis by (simp add: version_def)
next
  case Exit
  then show ?thesis
    by (cases "beepop self")
      (auto simp: exit_def call_beepop_def seq_def split: prod.splits sum.splits)
qed

lemma load_weather_records_path:
  "isfile env path \<Longrightarrow>
   weather_file (fst (snd (load_weather lib env self path))) = Attr (Some path)"
  by (simp add: load_weather_def call_beepop_def split: attr.splits prod.splits)

lemma init_without_weather:
  assumes "init lib env lib_file_arg parameter_file_arg None residue_file_arg verbose_arg =
             (Inr self, ev)"
  shows "weather_file self = Attr None"
proof -
  obtain r0 ev0 where lf: "init_lib_file env lib_file_arg verbose_arg = (r0, ev0)"
    by (cases "init_lib_file env lib_file_arg verbose_arg")
  show ?thesis
  proof (cases r0)
    case (Inl e)
    with lf assms show ?thesis by (simp add: init_def)
  next
    case (Inr path)
    show ?thesis
    proof (cases "new_model lib path verbose_arg")
      case (Inl e)
      with lf Inr assms show ?thesis
        by (cases "isfile env path") (simp_all add: init_def init_open_def Let_def)
    next
      case new: (Inr n)
      with lf Inr assms show ?thesis
        by (cases "isfile env path"; cases parameter_file_arg; cases residue_file_arg)
          (auto simp: init_def init_open_def init_parameter_file_def init_weather_file_def
            init_residue_file_def new_object_def Let_def)
    qed
  qed
qed




text \<open>
  What a run leaves behind: \<open>get_output\<close> depends on the object through its stored output
  only, and \<open>run_model\<close> stores an output exactly when the native run returns one.
\<close>

lemma get_output_reads_output:
  "output' self' = output' self \<Longrightarrow>
   fst (get_output env self' format) = fst (get_output env self format)"
  by (cases "output' self") (simp_all add: get_output_def split: option.splits sum.splits)

lemma run_model_outcome:
  assumes "run_model lib self = (r, self', ev)"
  shows "case r of
           Inl e \<Rightarrow> output' self' = output' self
         | Inr df \<Rightarrow>
             output' self' = Attr (Some df) \<and>
             (\<exists>n. beepop self = Attr n \<and> fst (bp_run_beepop lib n) = Inr df)"
  using assms
  by (cases "parameter_file self"; cases "parameters self"; cases "weather_file self";
      cases "beepop self")
    (auto simp: run_model_def call_beepop_def seq_def split: if_splits prod.splits sum.splits)

lemma run_model_native_failure:
  assumes "beepop self = Attr n" and "fst (bp_run_beepop lib n) = Inl e"
  shows "isl (fst (run_model lib self))"
  using assms
  by (cases "parameter_file self"; cases "parameters self"; cases "weather_file self")
    (auto simp: run_model_def call_beepop_def seq_def split: if_splits prod.splits sum.splits)

text \<open>
  C9. The output is assigned only from what the native run returns. If the native run
  raises, so does \<open>run_model\<close>; whenever \<open>run_model\<close> raises, the stored output is the one
  from before and \<open>get_output\<close> gives what it gave before (the earlier table, or the
  error that there are no results); and when \<open>run_model\<close> returns a table, that table is
  what the native run returned and is the stored output.
\<close>

theorem failed_run_keeps_output:
  assumes "run_model lib self = (r, self', ev)"
  shows "(beepop self = Attr n \<and> fst (bp_run_beepop lib n) = Inl e \<longrightarrow> isl r)
       \<and> (isl r \<longrightarrow>
            output' self' = output' self \<and>
            fst (get_output env self' format) = fst (get_output env self format))
       \<and> (\<forall>df. r = Inr df \<longrightarrow>
            output' self' = Attr (Some df) \<and>
            (\<exists>n. beepop self = Attr n \<and> fst (bp_run_beepop lib n) = Inr df))"
proof (intro conjI impI allI)
  assume "beepop self = Attr n \<and> fst (bp_run_beepop lib n) = Inl e"
  then have "isl (fst (run_model lib self))"
    by (simp add: run_model_native_failure)
  with assms show "isl r" by simp
next
  assume "isl r"
  then obtain e' where "r = Inl e'" by (cases r) simp_all
  with run_model_outcome [OF assms] show kept: "output' self' = output' self" by simp
  then show "fst (get_output env self' format) = fst (get_output env self format)"
    by (rule get_output_reads_output)
next
  fix df assume "r = Inr df"
  with run_model_outcome [OF assms]
  show "output' self' = Attr (Some df)"
    and "\<exists>n. beepop self = Attr n \<and> fst (bp_run_beepop lib n) = Inr df"
    by simp_all
qed

theorem failed_run_keeps_output_witness:
  "isl (fst (run_model example_lib handle_reconfigured))
   \<and> output' (fst (snd (run_model example_lib handle_reconfigured))) =
       Attr (Some example_table)
   \<and> fst (get_output example_env (fst (snd (run_model example_lib handle_reconfigured)))
            ''DataFrame'') =
       Inr (Table example_table)"
proof -
  let ?run = "run_model example_lib handle_reconfigured"
  have run: "?run = (fst ?run, fst (snd ?run), snd (snd ?run))"
    by simp
  have native: "beepop handle_reconfigured = Attr (Some ''empty.csv'') \<and>
      fst (bp_run_beepop example_lib (Some ''empty.csv'')) =
        Inl (RuntimeError ''Error running BeePop+ simulation.'')"
    by (simp add: handle_reconfigured_def example_lib_def)
  have before: "output' handle_reconfigured = Attr (Some example_table)"
    "fst (get_output example_env handle_reconfigured ''DataFrame'') = Inr (Table example_table)"
    by (simp_all add: get_output_def handle_reconfigured_def handle_ran_def)
  note kept = failed_run_keeps_output
    [OF run, where n = "Some ''empty.csv''"
       and e = "RuntimeError ''Error running BeePop+ simulation.''"
       and env = example_env and format = "''DataFrame''"]
  from kept native have raised: "isl (fst ?run)"
    by blast
  with kept have "output' (fst (snd ?run)) = output' handle_reconfigured"
    and "fst (get_output example_env (fst (snd ?run)) ''DataFrame'') =
         fst (get_output example_env handle_reconfigured ''DataFrame'')"
    by blast+
  with raised before show ?thesis by simp
qed

subsection \<open>Reading and plotting the output\<close>

text \<open>
  C10. Once an output is stored, \<open>get_output\<close> returns the table itself for every
  \<open>format\<close> other than the string \<^verbatim>\<open>json\<close>, whatever its case or spelling, and raises
  nothing; only for \<^verbatim>\<open>json\<close> does it return the text that \<^verbatim>\<open>json.dumps\<close> makes of the
  table's dict of lists (or raise what \<^verbatim>\<open>json.dumps\<close> raises).
\<close>

theorem get_output_format:
  assumes "output' self = Attr (Some df)"
  shows "(format \<noteq> ''json'' \<longrightarrow> get_output env self format = (Inr (Table df), self, []))
       \<and> (format = ''json'' \<longrightarrow>
            get_output env self format =
              (case json_dumps env (to_dict_list df) of
                 Inl e \<Rightarrow> (Inl e, self, [])
               | Inr text \<Rightarrow> (Inr (JsonText text), self, [])))"
  using assms by (simp add: get_output_def)

theorem get_output_format_witness:
  "get_output example_env handle_ran ''json'' =
     (Inr (JsonText ''{\"Date\": [\"06/01/2020\", \"06/02/2020\"], \"Colony Size\": [10000, 10120], \"Adult Workers\": [8000, 8090], \"Capped Worker Brood\": [1000, 1010], \"Worker Larvae\": [600, 610], \"Worker Eggs\": [400, 410]}''),
      handle_ran, [])
   \<and> get_output example_env handle_ran ''JSON'' = (Inr (Table example_table), handle_ran, [])
   \<and> get_output example_env handle_ran ''DataFrame'' = (Inr (Table example_table), handle_ran, [])
   \<and> get_output example_env handle_ran ''csv'' = (Inr (Table example_table), handle_ran, [])"
proof -
  have stored: "output' handle_ran = Attr (Some example_table)"
    by (simp add: handle_ran_def)
  show ?thesis
    using get_output_format [OF stored, where env = example_env and format = "''json''"]
      get_output_format [OF stored, where env = example_env and format = "''JSON''"]
      get_output_format [OF stored, where env = example_env and format = "''DataFrame''"]
      get_output_format [OF stored, where env = example_env and format = "''csv''"]
    by (simp add: json_dumps_example)
qed




lemma invalid_columns: "map fst (filter (\<lambda>(i, v). v) (zip cols (map P cols))) = filter P cols"
  by (induction cols) auto

text \<open>
  C7. Once an output is stored, \<open>plot_output\<close> with a list of columns of which at least
  one is not a column of the output raises \<open>IndexError\<close>. The message holds the list of
  exactly the requested names that are not columns, in the order requested; the object is
  unchanged and \<^verbatim>\<open>plot_timeseries\<close> is not called, so nothing is plotted.
\<close>

theorem plot_output_invalid_columns:
  assumes "output' self = Attr (Some df)"
    and "\<exists>col \<in> set cols. col \<notin> set (columns df)"
  shows "plot_output env plot_timeseries self cols =
           (Inl (IndexError
              (''The column name '' @
               list_repr env (filter (\<lambda>col. col \<notin> set (columns df)) cols) @
               '' is not a valid output column.'')),
            self, [])"
  using assms
  by (auto simp add: plot_output_def invalid_columns list_ex_iff)

theorem plot_output_invalid_columns_witness:
  "plot_output example_env example_plot handle_ran
     [''Colony Size'', ''NotARealColumn'', ''Date'', ''Bees''] =
     (Inl (IndexError
        ''The column name ['NotARealColumn', 'Bees'] is not a valid output column.''),
      handle_ran, [])"
proof -
  have stored: "output' handle_ran = Attr (Some example_table)"
    by (simp add: handle_ran_def)
  have bad: "\<exists>col \<in> set [''Colony Size'', ''NotARealColumn'', ''Date'', ''Bees''].
               col \<notin> set (columns example_table)"
    by (simp add: columns_def example_table_def)
  show ?thesis
    using plot_output_invalid_columns [OF stored bad, of example_env example_plot]
    by (simp add: list_repr_def example_env_def columns_def example_table_def)
qed

subsection \<open>After \<open>exit\<close>\<close>









subsection \<open>Setting parameters\<close>

text \<open>
  C6, as the code has it. \<open>set_parameters\<close> raises \<open>TypeError\<close>, before any call into
  the native library and without changing the object, for every argument that is neither
  \<open>None\<close> nor a dict: lists and scalars. \<open>None\<close> and every dict, whatever its keys and
  values, pass the test and are handed to \<open>set_parameters\<close> of \<^verbatim>\<open>BeePopModel\<close>, whose
  result becomes \<open>self.parameters\<close>.
\<close>

theorem set_parameters_type_check:
  "(ps \<noteq> PyNone \<and> (\<forall>d. ps \<noteq> PyDict d) \<longrightarrow>
      set_parameters lib self ps =
        (Inl (TypeError ''parameters must be a named dictionary of BeePop+ parameters''), self, []))
   \<and> ((ps = PyNone \<or> (\<exists>d. ps = PyDict d)) \<and> beepop self = Attr n \<longrightarrow>
      set_parameters lib self ps =
        (case bp_set_parameters lib n ps of
           (Inl e, n') \<Rightarrow> (Inl e, self\<lparr>beepop := Attr n'\<rparr>, [Native (SetParameters ps)])
         | (Inr accepted, n') \<Rightarrow>
             (Inr (), self\<lparr>beepop := Attr n', parameters := Attr accepted\<rparr>,
              [Native (SetParameters ps)])))"
  by (cases ps) (auto simp: set_parameters_def call_beepop_def seq_def split: prod.splits sum.splits)

theorem set_parameters_type_check_witness:
  "set_parameters example_lib handle_created (PyList [PyStr ''not'', PyStr ''a'', PyStr ''dict'']) =
     (Inl (TypeError ''parameters must be a named dictionary of BeePop+ parameters''),
      handle_created, [])
   \<and> set_parameters example_lib handle_created (PyInt 5) =
     (Inl (TypeError ''parameters must be a named dictionary of BeePop+ parameters''),
      handle_created, [])
   \<and> set_parameters example_lib handle_created (PyDict [(PyStr ''ICWorkerAdults'', PyInt 10000)]) =
     (Inr (), handle_created\<lparr>parameters := Attr (PyDict [(PyStr ''ICWorkerAdults'', PyInt 10000)])\<rparr>,
      [Native (SetParameters (PyDict [(PyStr ''ICWorkerAdults'', PyInt 10000)]))])"
proof -
  note check = set_parameters_type_check [where lib = example_lib and self = handle_created]
  have opened: "beepop handle_created = Attr None"
    by (simp add: handle_created_def)
  have "set_parameters example_lib handle_created
          (PyList [PyStr ''not'', PyStr ''a'', PyStr ''dict'']) =
        (Inl (TypeError ''parameters must be a named dictionary of BeePop+ parameters''),
         handle_created, [])"
    using check [where ps = "PyList [PyStr ''not'', PyStr ''a'', PyStr ''dict'']"] by simp
  moreover have "set_parameters example_lib handle_created (PyInt 5) =
        (Inl (TypeError ''parameters must be a named dictionary of BeePop+ parameters''),
         handle_created, [])"
    using check [where ps = "PyInt 5"] by simp
  moreover have "set_parameters example_lib handle_created
          (PyDict [(PyStr ''ICWorkerAdults'', PyInt 10000)]) =
        (Inr (), handle_created\<lparr>parameters := Attr (PyDict [(PyStr ''ICWorkerAdults'', PyInt 10000)])\<rparr>,
         [Native (SetParameters (PyDict [(PyStr ''ICWorkerAdults'', PyInt 10000)]))])"
    using check [where ps = "PyDict [(PyStr ''ICWorkerAdults'', PyInt 10000)]" and n = None] opened
    by (simp add: example_lib_def handle_created_def)
  ultimately show ?thesis by simp
qed

text \<open>
  The claim as stated fails: \<open>None\<close>, and a dict with a key that is no string and a value
  that is no scalar, raise no \<open>TypeError\<close> and reach the native layer.
\<close>

theorem set_parameters_None_counterexample:
  "set_parameters example_lib handle_created PyNone =
     (Inr (), handle_created, [Native (SetParameters PyNone)])
   \<and> set_parameters example_lib handle_created (PyDict [(PyInt 1, PyList [PyDict []])]) =
     (Inr (), handle_created\<lparr>parameters := Attr (PyDict [(PyInt 1, PyList [PyDict []])])\<rparr>,
      [Native (SetParameters (PyDict [(PyInt 1, PyList [PyDict []])]))])"
  by (simp add: set_parameters_def call_beepop_def example_lib_def handle_created_def)

subsection \<open>Construction\<close>

text \<open>
  Construction with a library path given: when it returns an object, the file at that path
  was found, it is the library that was opened first of all, and it is the object's
  \<open>lib_file\<close>.
\<close>

lemma init_opens_given:
  assumes "init lib env (Some path) parameter_file_arg weather_file_arg residue_file_arg
             verbose_arg = (Inr self, ev)"
  shows "isfile env path \<and> lib_file self = Attr path \<and>
         (\<exists>evs. ev = IsFile path # Native (NewModel path verbose_arg) # evs)"
proof (cases "new_model lib path verbose_arg")
  case (Inl e)
  with assms show ?thesis
    by (cases "isfile env path") (simp_all add: init_def init_open_def init_lib_file_def Let_def)
next
  case (Inr n)
  with assms show ?thesis
    by (cases "isfile env path"; cases parameter_file_arg; cases weather_file_arg;
        cases residue_file_arg)
      (auto simp: init_def init_open_def init_lib_file_def init_parameter_file_def
        init_weather_file_def init_residue_file_def new_object_def Let_def load_weather_def
        call_beepop_def seq_def split: if_splits prod.splits sum.splits)
qed

text \<open>
  C2, as the code has it. Without a library path, construction on Windows with an
  architecture other than \<^verbatim>\<open>32bit\<close> is construction with the bundled
  \<^verbatim>\<open>lib/beepop_win64.dll\<close>, and construction on Linux, whatever the architecture, is
  construction with the bundled \<^verbatim>\<open>lib/beepop_linux.so\<close> (after the notice, when
  \<open>verbose\<close>). It raises \<open>NotImplementedError\<close> with no effect at all, so before any access
  to the file system, on Windows with architecture \<^verbatim>\<open>32bit\<close> and on every system other
  than Windows and Linux.
\<close>

theorem init_selects_library:
  "(platform_system env = ''Windows'' \<and> platform_architecture env \<noteq> ''32bit'' \<longrightarrow>
      init lib env None parameter_file_arg weather_file_arg residue_file_arg verbose_arg =
      init lib env (Some (path_join env (module_dir env) ''lib/beepop_win64.dll''))
        parameter_file_arg weather_file_arg residue_file_arg verbose_arg)
   \<and> (platform_system env = ''Linux'' \<longrightarrow>
      init lib env None parameter_file_arg weather_file_arg residue_file_arg verbose_arg =
      (case init lib env (Some (path_join env (module_dir env) ''lib/beepop_linux.so''))
              parameter_file_arg weather_file_arg residue_file_arg verbose_arg
       of (r, ev) \<Rightarrow> (r, (if verbose_arg then [Print linux_notice] else []) @ ev)))
   \<and> (platform_system env = ''Windows'' \<and> platform_architecture env = ''32bit'' \<longrightarrow>
      init lib env None parameter_file_arg weather_file_arg residue_file_arg verbose_arg =
      (Inl (NotImplementedError
         ''Windows x86 (32-bit) is not supported by BeePop+. Please run on an x64 platform.''),
       []))
   \<and> (platform_system env \<noteq> ''Windows'' \<and> platform_system env \<noteq> ''Linux'' \<longrightarrow>
      init lib env None parameter_file_arg weather_file_arg residue_file_arg verbose_arg =
      (Inl (NotImplementedError ''BeePop+ only supports Windows and Linux.''), []))"
  by (simp add: init_def init_lib_file_def split: prod.splits sum.splits)

theorem init_selects_library_witness:
  "init example_lib example_windows None None None None False =
     (Inr (handle_created\<lparr>parent := Attr example_windows_dir, platform := Attr ''Windows'',
                          lib_file := Attr example_dll\<rparr>),
      [IsFile example_dll, Native (NewModel example_dll False)])
   \<and> init example_lib example_env None None None None True =
     (Inr (handle_created\<lparr>verbose := Attr True\<rparr>),
      [Print linux_notice, IsFile ''/opt/pybeepop/lib/beepop_linux.so'',
       Native (NewModel ''/opt/pybeepop/lib/beepop_linux.so'' True)])
   \<and> init example_lib (example_windows\<lparr>platform_architecture := ''32bit''\<rparr>)
       None None None None False =
     (Inl (NotImplementedError
        ''Windows x86 (32-bit) is not supported by BeePop+. Please run on an x64 platform.''),
      [])
   \<and> init example_lib (example_env\<lparr>platform_system := ''Darwin''\<rparr>)
       None None None None False =
     (Inl (NotImplementedError ''BeePop+ only supports Windows and Linux.''), [])"
proof -
  have windows: "platform_system example_windows = ''Windows'' \<and>
      platform_architecture example_windows \<noteq> ''32bit''"
    and dll: "path_join example_windows (module_dir example_windows) ''lib/beepop_win64.dll'' =
      example_dll"
    by (simp_all add: example_windows_def example_env_def example_dll_def)
  have linux: "platform_system example_env = ''Linux''"
    and so: "path_join example_env (module_dir example_env) ''lib/beepop_linux.so'' =
      ''/opt/pybeepop/lib/beepop_linux.so''"
    by (simp_all add: example_env_def)
  have windows32:
    "platform_system (example_windows\<lparr>platform_architecture := ''32bit''\<rparr>) = ''Windows'' \<and>
     platform_architecture (example_windows\<lparr>platform_architecture := ''32bit''\<rparr>) = ''32bit''"
    by (simp add: example_windows_def)
  have darwin:
    "platform_system (example_env\<lparr>platform_system := ''Darwin''\<rparr>) \<noteq> ''Windows'' \<and>
     platform_system (example_env\<lparr>platform_system := ''Darwin''\<rparr>) \<noteq> ''Linux''"
    by simp
  have first: "init example_lib example_windows None None None None False =
      init example_lib example_windows (Some example_dll) None None None False"
    using init_selects_library [where env = example_windows and lib = example_lib
        and parameter_file_arg = None and weather_file_arg = None and residue_file_arg = None
        and verbose_arg = False] windows
    unfolding dll by blast
  have second: "init example_lib example_env None None None None True =
      (case init example_lib example_env (Some ''/opt/pybeepop/lib/beepop_linux.so'')
              None None None True
       of (r, ev) \<Rightarrow> (r, [Print linux_notice] @ ev))"
    using init_selects_library [where env = example_env and lib = example_lib
        and parameter_file_arg = None and weather_file_arg = None and residue_file_arg = None
        and verbose_arg = True] linux
    unfolding so by simp
  have third: "init example_lib (example_windows\<lparr>platform_architecture := ''32bit''\<rparr>)
       None None None None False =
     (Inl (NotImplementedError
        ''Windows x86 (32-bit) is not supported by BeePop+. Please run on an x64 platform.''),
      [])"
    using init_selects_library
      [where env = "example_windows\<lparr>platform_architecture := ''32bit''\<rparr>"
        and lib = example_lib
        and parameter_file_arg = None and weather_file_arg = None and residue_file_arg = None
        and verbose_arg = False] windows32
    by blast
  have fourth: "init example_lib (example_env\<lparr>platform_system := ''Darwin''\<rparr>)
       None None None None False =
     (Inl (NotImplementedError ''BeePop+ only supports Windows and Linux.''), [])"
    using init_selects_library
      [where env = "example_env\<lparr>platform_system := ''Darwin''\<rparr>"
        and lib = example_lib
        and parameter_file_arg = None and weather_file_arg = None and residue_file_arg = None
        and verbose_arg = False] darwin
    by blast
  from first second third fourth show ?thesis
    by (simp add: init_explicit_windows init_explicit_linux)
qed

text \<open>
  The claim as stated fails on 32-bit Linux: construction is not refused, it probes the file
  system for the bundled library and opens it.
\<close>

theorem init_linux_32bit_counterexample:
  "platform_system (example_env\<lparr>platform_architecture := ''32bit''\<rparr>) = ''Linux''
   \<and> platform_architecture (example_env\<lparr>platform_architecture := ''32bit''\<rparr>) = ''32bit''
   \<and> init example_lib (example_env\<lparr>platform_architecture := ''32bit''\<rparr>)
       None None None None False =
     (Inr handle_created,
      [IsFile ''/opt/pybeepop/lib/beepop_linux.so'',
       Native (NewModel ''/opt/pybeepop/lib/beepop_linux.so'' False)])"
  by (simp add: init_def init_open_def init_lib_file_def init_parameter_file_def
      init_weather_file_def init_residue_file_def new_object_def example_env_def example_lib_def
      handle_created_def)

text \<open>
  C3. The constructor passes the argument \<open>weather_file\<close> to \<open>load_weather\<close>, but for a
  parameter file and a residue file it passes \<open>self.parameter_file\<close> and
  \<open>self.residue_file\<close>, attributes that the new object does not have yet. Evaluated with
  files that exist: with a parameter file or a residue file construction raises
  \<open>AttributeError\<close> and neither file is loaded; with a weather file it loads exactly that
  file.
\<close>

theorem init_files_evaluated:
  "init example_lib example_env None (Some ''parameters.txt'') None None False =
     (Inl (AttributeError ''parameter_file''),
      [IsFile ''/opt/pybeepop/lib/beepop_linux.so'',
       Native (NewModel ''/opt/pybeepop/lib/beepop_linux.so'' False)])
   \<and> init example_lib example_env None None None (Some ''residues.csv'') False =
     (Inl (AttributeError ''residue_file''),
      [IsFile ''/opt/pybeepop/lib/beepop_linux.so'',
       Native (NewModel ''/opt/pybeepop/lib/beepop_linux.so'' False)])
   \<and> init example_lib example_env None None (Some ''weather.csv'') None False =
     (Inr handle_configured,
      [IsFile ''/opt/pybeepop/lib/beepop_linux.so'',
       Native (NewModel ''/opt/pybeepop/lib/beepop_linux.so'' False),
       IsFile ''weather.csv'', Native (LoadWeather ''weather.csv'')])"
  by (simp add: init_def init_open_def init_lib_file_def init_parameter_file_def
      init_weather_file_def init_residue_file_def new_object_def load_weather_def
      call_beepop_def example_env_def example_lib_def handle_created_def handle_configured_def)

text \<open>
  The same in every setting in which the library is found and opened: a parameter file, or
  a residue file alone, makes the constructor raise \<open>AttributeError\<close> right after the
  library is opened; a weather file alone is loaded by \<open>load_weather\<close> with the path given.
\<close>

lemma init_parameter_file_given:
  assumes "init_lib_file env lib_file_arg verbose_arg = (Inr lib_path, ev0)"
    and "isfile env lib_path"
    and "new_model lib lib_path verbose_arg = Inr n"
  shows "init lib env lib_file_arg (Some path) weather_file_arg residue_file_arg verbose_arg =
           (Inl (AttributeError ''parameter_file''),
            ev0 @ [IsFile lib_path, Native (NewModel lib_path verbose_arg)])"
  using assms by (simp add: init_def init_open_def init_parameter_file_def new_object_def)

lemma init_residue_file_given:
  assumes "init_lib_file env lib_file_arg verbose_arg = (Inr lib_path, ev0)"
    and "isfile env lib_path"
    and "new_model lib lib_path verbose_arg = Inr n"
  shows "init lib env lib_file_arg None None (Some path) verbose_arg =
           (Inl (AttributeError ''residue_file''),
            ev0 @ [IsFile lib_path, Native (NewModel lib_path verbose_arg)])"
  using assms
  by (simp add: init_def init_open_def init_parameter_file_def init_weather_file_def
      init_residue_file_def new_object_def)

end
